theory Spec2Isabelle
  imports Complex_Main
begin

section \<open>Telehealth compliance checker: crawler, rule engine and score calculator\<close>

text \<open>
  A shallow embedding of \<^verbatim>\<open>telehealth_compliance_checker.py\<close>. Python strings are
  \<^typ>\<open>string\<close>; a character stands for a code point below 256. Python dictionaries
  that are iterated (\<^verbatim>\<open>findings\<close>, \<^verbatim>\<open>pages\<close>, the rule table) are association
  lists in insertion order; dictionaries that are only looked up are maps.
\<close>

subsection \<open>Python strings\<close>

text \<open>
  The character classes below are those of Python 3 for code points below 256:
  \<^verbatim>\<open>str.isspace\<close> (also what \<^verbatim>\<open>str.strip()\<close> removes and what \<^verbatim>\<open>\s\<close> matches),
  the decimal digits of \<^verbatim>\<open>\d\<close>, the word characters of \<^verbatim>\<open>\w\<close> and \<^verbatim>\<open>\b\<close>, and
  \<^verbatim>\<open>str.lower\<close>.
\<close>

definition code_point :: "char \<Rightarrow> int" where
  "code_point c = of_char c"

definition is_space :: "char \<Rightarrow> bool" where
  "is_space c =
     (let n = code_point c in (9 \<le> n \<and> n \<le> 13) \<or> (28 \<le> n \<and> n \<le> 32) \<or> n = 133 \<or> n = 160)"

definition is_digit :: "char \<Rightarrow> bool" where
  "is_digit c = (let n = code_point c in 48 \<le> n \<and> n \<le> 57)"

definition is_word :: "char \<Rightarrow> bool" where
  "is_word c =
     (let n = code_point c in
        (48 \<le> n \<and> n \<le> 57) \<or> (65 \<le> n \<and> n \<le> 90) \<or> n = 95 \<or> (97 \<le> n \<and> n \<le> 122) \<or>
        n = 170 \<or> n = 178 \<or> n = 179 \<or> n = 181 \<or> n = 185 \<or> n = 186 \<or>
        (188 \<le> n \<and> n \<le> 190) \<or> (192 \<le> n \<and> n \<le> 214) \<or> (216 \<le> n \<and> n \<le> 246) \<or>
        (248 \<le> n \<and> n \<le> 255))"

definition lower_char :: "char \<Rightarrow> char" where
  "lower_char c =
     (let n = code_point c in
        if (65 \<le> n \<and> n \<le> 90) \<or> (192 \<le> n \<and> n \<le> 214) \<or> (216 \<le> n \<and> n \<le> 222)
        then char_of (n + 32) else c)"

definition py_lower :: "string \<Rightarrow> string" where
  "py_lower s = map lower_char s"

definition py_strip :: "string \<Rightarrow> string" where
  "py_strip s = rev (dropWhile is_space (rev (dropWhile is_space s)))"

definition py_startswith :: "string \<Rightarrow> string \<Rightarrow> bool" where
  "py_startswith s p = (take (length p) s = p)"

text \<open>\<^verbatim>\<open>s[start:stop]\<close> for indices that are not negative.\<close>

definition py_slice :: "string \<Rightarrow> nat \<Rightarrow> nat \<Rightarrow> string" where
  "py_slice s start stop = take (stop - start) (drop start s)"

text \<open>\<^verbatim>\<open>str(n)\<close> for a natural number, as the f-strings of the form check print an index.\<close>

function str_nat :: "nat \<Rightarrow> string" where
  "str_nat n =
     (if n < 10 then [char_of (48 + n)] else str_nat (n div 10) @ [char_of (48 + n mod 10)])"
  by pat_completeness auto
termination
  by (relation "measure (\<lambda>n. n)") auto

subsection \<open>Regular expressions\<close>

text \<open>
  The part of Python's \<^verbatim>\<open>re\<close> the rule tables use, always under \<^verbatim>\<open>re.IGNORECASE\<close>:
  literals, \<^verbatim>\<open>\s\<close>, \<^verbatim>\<open>\d\<close>, \<^verbatim>\<open>\b\<close>, sequences, ordered alternatives and the greedy
  star. A cursor is the character before the current position (for \<^verbatim>\<open>\b\<close>) and the
  text still to be read. \<open>rx_ends\<close> lists the cursors at which a match starting at the
  given cursor can end, in the order in which the backtracking matcher tries them, so the
  first one is the match \<^verbatim>\<open>re\<close> reports. An iteration of the star that consumes
  nothing is not repeated.
\<close>

datatype rx = Eps | Chr char | Space | Digit | WordB | Seq rx rx | Alt rx rx | Star rx

type_synonym cursor = "char option \<times> string"

definition word_before :: "char option \<Rightarrow> bool" where
  "word_before p = (case p of None \<Rightarrow> False | Some c \<Rightarrow> is_word c)"

definition word_after :: "string \<Rightarrow> bool" where
  "word_after s = (case s of [] \<Rightarrow> False | c # _ \<Rightarrow> is_word c)"

definition one_char :: "(char \<Rightarrow> bool) \<Rightarrow> string \<Rightarrow> cursor list" where
  "one_char P s = (case s of [] \<Rightarrow> [] | x # s' \<Rightarrow> if P x then [(Some x, s')] else [])"

function rx_ends :: "rx \<Rightarrow> char option \<Rightarrow> string \<Rightarrow> cursor list" where
  "rx_ends Eps p s = [(p, s)]"
| "rx_ends (Chr c) p s = one_char (\<lambda>x. lower_char x = lower_char c) s"
| "rx_ends Space p s = one_char is_space s"
| "rx_ends Digit p s = one_char is_digit s"
| "rx_ends WordB p s = (if word_before p \<noteq> word_after s then [(p, s)] else [])"
| "rx_ends (Seq a b) p s = concat (map (\<lambda>q. rx_ends b (fst q) (snd q)) (rx_ends a p s))"
| "rx_ends (Alt a b) p s = rx_ends a p s @ rx_ends b p s"
| "rx_ends (Star a) p s =
     concat (map (\<lambda>q. rx_ends (Star a) (fst q) (snd q))
                 (filter (\<lambda>q. length (snd q) < length s) (rx_ends a p s))) @ [(p, s)]"
  by pat_completeness auto
termination
  by (relation "measures [\<lambda>(r, p, s). size r, \<lambda>(r, p, s). length s]") auto

text \<open>
  The defining equations of \<open>rx_ends\<close> and \<open>str_nat\<close> rewrite their own right-hand
  sides, so they are not simplification rules. For evaluation the two equations with a
  function argument are restated over \<open>ends_all\<close>, which continues a match from each
  cursor of a list in turn.
\<close>

declare rx_ends.simps [simp del]

declare str_nat.simps [simp del]

definition ends_all :: "rx \<Rightarrow> cursor list \<Rightarrow> cursor list" where
  [code del]: "ends_all r qs = concat (map (\<lambda>q. rx_ends r (fst q) (snd q)) qs)"

lemma ends_all_code [code]:
  "ends_all r [] = []"
  "ends_all r (q # qs) = rx_ends r (fst q) (snd q) @ ends_all r qs"
  by (simp_all add: ends_all_def)

lemma rx_ends_code [code]:
  "rx_ends Eps p s = [(p, s)]"
  "rx_ends (Chr c) p s = one_char (\<lambda>x. lower_char x = lower_char c) s"
  "rx_ends Space p s = one_char is_space s"
  "rx_ends Digit p s = one_char is_digit s"
  "rx_ends WordB p s = (if word_before p \<noteq> word_after s then [(p, s)] else [])"
  "rx_ends (Alt a b) p s = rx_ends a p s @ rx_ends b p s"
  "rx_ends (Seq a b) p s = ends_all b (rx_ends a p s)"
  "rx_ends (Star a) p s =
     ends_all (Star a) (filter (\<lambda>q. length (snd q) < length s) (rx_ends a p s)) @ [(p, s)]"
  unfolding ends_all_def by (rule rx_ends.simps)+

text \<open>\<^verbatim>\<open>re.search(r, s, re.IGNORECASE)\<close> as a truth value.\<close>

fun search_from :: "rx \<Rightarrow> char option \<Rightarrow> string \<Rightarrow> bool" where
  "search_from r p [] = (rx_ends r p [] \<noteq> [])"
| "search_from r p (x # s) = (rx_ends r p (x # s) \<noteq> [] \<or> search_from r (Some x) s)"

definition re_search :: "rx \<Rightarrow> string \<Rightarrow> bool" where
  "re_search r s = search_from r None s"

text \<open>
  \<^verbatim>\<open>re.finditer(r, s, re.IGNORECASE)\<close> as the list of \<^verbatim>\<open>(match.start(), match.end())\<close>.
  After a match that is not empty the scan goes on at its end; after an empty match it
  looks at the same position for a match that is not empty, then moves one character on.
\<close>

definition first_match :: "rx \<Rightarrow> char option \<Rightarrow> string \<Rightarrow> bool \<Rightarrow> cursor option" where
  "first_match r p s must_advance =
     (case filter (\<lambda>q. \<not> must_advance \<or> length (snd q) < length s) (rx_ends r p s) of
        [] \<Rightarrow> None
      | q # _ \<Rightarrow> Some q)"

lemma first_match_advances:
  assumes "first_match r p s True = Some q"
  shows "length (snd q) < length s"
proof -
  obtain qs where "filter (\<lambda>q. length (snd q) < length s) (rx_ends r p s) = q # qs"
    using assms by (auto simp: first_match_def split: list.splits)
  then have "q \<in> set (filter (\<lambda>q. length (snd q) < length s) (rx_ends r p s))" by simp
  then show ?thesis by simp
qed

function finditer_from :: "rx \<Rightarrow> nat \<Rightarrow> char option \<Rightarrow> string \<Rightarrow> bool \<Rightarrow> (nat \<times> nat) list" where
  "finditer_from r pos p s must_advance =
     (case first_match r p s must_advance of
        None \<Rightarrow> (case s of [] \<Rightarrow> [] | x # s' \<Rightarrow> finditer_from r (pos + 1) (Some x) s' False)
      | Some q \<Rightarrow>
          (if length (snd q) < length s
           then (pos, pos + (length s - length (snd q)))
                  # finditer_from r (pos + (length s - length (snd q))) (fst q) (snd q) False
           else (pos, pos) # finditer_from r pos p s True))"
  by pat_completeness auto
termination
proof (relation "measures [\<lambda>(r, pos, p, s, adv). length s, \<lambda>(r, pos, p, s, adv). if adv then 0 else 1]")
  show "wf (measures [\<lambda>(r, pos, p, s, adv). length s,
                      \<lambda>(r :: rx, pos :: nat, p :: char option, s :: string, adv). if adv then 0 else (1::nat)])"
    by simp
next
  fix r :: rx and pos :: nat and p :: "char option" and s :: string and must_advance :: bool
    and x21 :: char and x22 :: string
  assume "s = x21 # x22"
  then show "((r, pos + 1, Some x21, x22, False), r, pos, p, s, must_advance)
       \<in> measures [\<lambda>(r, pos, p, s, adv). length s, \<lambda>(r, pos, p, s, adv). if adv then 0 else 1]"
    by simp
next
  fix r :: rx and pos :: nat and p :: "char option" and s :: string and must_advance :: bool
    and q :: cursor
  assume "length (snd q) < length s"
  then show "((r, pos + (length s - length (snd q)), fst q, snd q, False), r, pos, p, s, must_advance)
       \<in> measures [\<lambda>(r, pos, p, s, adv). length s, \<lambda>(r, pos, p, s, adv). if adv then 0 else 1]"
    by simp
next
  fix r :: rx and pos :: nat and p :: "char option" and s :: string and must_advance :: bool
    and q :: cursor
  assume a: "first_match r p s must_advance = Some q" and b: "\<not> length (snd q) < length s"
  have "\<not> must_advance" using a b first_match_advances by (cases must_advance) auto
  then show "((r, pos, p, s, True), r, pos, p, s, must_advance)
       \<in> measures [\<lambda>(r, pos, p, s, adv). length s, \<lambda>(r, pos, p, s, adv). if adv then 0 else 1]"
    by simp
qed

declare finditer_from.simps [simp del]

definition re_finditer :: "rx \<Rightarrow> string \<Rightarrow> (nat \<times> nat) list" where
  "re_finditer r s = finditer_from r 0 None s False"

text \<open>Abbreviations for writing patterns: a literal word, \<^verbatim>\<open>r+\<close>, \<^verbatim>\<open>r?\<close>, \<^verbatim>\<open>r1r2...\<close>, \<^verbatim>\<open>r1|r2|...\<close>.\<close>

fun lit :: "string \<Rightarrow> rx" where
  "lit [] = Eps"
| "lit [c] = Chr c"
| "lit (c # cs) = Seq (Chr c) (lit cs)"

definition many1 :: "rx \<Rightarrow> rx" where
  "many1 r = Seq r (Star r)"

definition opt :: "rx \<Rightarrow> rx" where
  "opt r = Alt r Eps"

fun seqs :: "rx list \<Rightarrow> rx" where
  "seqs [] = Eps"
| "seqs [r] = r"
| "seqs (r # rs) = Seq r (seqs rs)"

fun alts :: "rx list \<Rightarrow> rx" where
  "alts [] = Eps"
| "alts [r] = r"
| "alts (r # rs) = Alt r (alts rs)"

text \<open>
  A pattern of the program is its source string together with its compiled form. A
  backslash cannot stand in a string literal here; the sources write \<^verbatim>\<open>~\<close> for it
  (no pattern of the program contains \<^verbatim>\<open>~\<close>) and \<open>raw\<close> puts the backslash back.
\<close>

record regex =
  re_source :: string
  re_ast :: rx

definition raw :: "string \<Rightarrow> string" where
  "raw s = map (\<lambda>c. if c = CHR ''~'' then CHR 0x5C else c) s"

definition rgx :: "string \<Rightarrow> rx \<Rightarrow> regex" where
  "rgx src r = \<lparr>re_source = raw src, re_ast = r\<rparr>"

subsection \<open>Rule table\<close>

text \<open>
  A rule of \<^verbatim>\<open>ComplianceRules.get_default_rules\<close>. The keys \<^verbatim>\<open>context_exceptions\<close> and
  \<^verbatim>\<open>page_type_rules\<close> are optional; \<open>None\<close> is a rule without the key.
\<close>

record rule =
  rule_category :: string
  rule_severity :: string
  patterns :: "regex list"
  context_exceptions :: "regex list option"
  page_type_rules :: "(string \<rightharpoonup> string) option"

definition branded_medications :: rule where
  "branded_medications =
    \<lparr>rule_category = ''fda'', rule_severity = ''high'',
     patterns =
      [rgx ''~bOzempic~b''
        (seqs [WordB, lit ''Ozempic'', WordB]),
       rgx ''~bWegovy~b''
        (seqs [WordB, lit ''Wegovy'', WordB]),
       rgx ''~bMounjaro~b''
        (seqs [WordB, lit ''Mounjaro'', WordB]),
       rgx ''~bZepbound~b''
        (seqs [WordB, lit ''Zepbound'', WordB]),
       rgx ''~bSaxenda~b''
        (seqs [WordB, lit ''Saxenda'', WordB]),
       rgx ''~bVictoza~b''
        (seqs [WordB, lit ''Victoza'', WordB]),
       rgx ''~bRybelsus~b''
        (seqs [WordB, lit ''Rybelsus'', WordB]),
       rgx ''~bTrulicity~b''
        (seqs [WordB, lit ''Trulicity'', WordB])],
     context_exceptions = Some
      [rgx ''not~s+(?:a~s+substitute|the~s+same~s+as)~s+~b(?:Ozempic|Wegovy|Mounjaro|Zepbound|Saxenda|Victoza|Rybelsus|Trulicity)~b''
        (seqs [lit ''not'', many1 Space, alts [seqs [Chr CHR ''a'', many1 Space, lit ''substitute''], seqs [lit ''the'', many1 Space, lit ''same'', many1 Space, lit ''as'']], many1 Space, WordB, alts [lit ''Ozempic'', lit ''Wegovy'', lit ''Mounjaro'', lit ''Zepbound'', lit ''Saxenda'', lit ''Victoza'', lit ''Rybelsus'', lit ''Trulicity''], WordB]),
       rgx ''(?:unlike|different~s+from)~s+~b(?:Ozempic|Wegovy|Mounjaro|Zepbound|Saxenda|Victoza|Rybelsus|Trulicity)~b''
        (seqs [alts [lit ''unlike'', seqs [lit ''different'', many1 Space, lit ''from'']], many1 Space, WordB, alts [lit ''Ozempic'', lit ''Wegovy'', lit ''Mounjaro'', lit ''Zepbound'', lit ''Saxenda'', lit ''Victoza'', lit ''Rybelsus'', lit ''Trulicity''], WordB])],
     page_type_rules = Some [''blog'' \<mapsto> ''allow'', ''product'' \<mapsto> ''check_context'', ''other'' \<mapsto> ''check_context'']\<rparr>"

definition miracle_claims :: rule where
  "miracle_claims =
    \<lparr>rule_category = ''ftc'', rule_severity = ''high'',
     patterns =
      [rgx ''~bmiraculous~b''
        (seqs [WordB, lit ''miraculous'', WordB]),
       rgx ''~bbreakthrough~b''
        (seqs [WordB, lit ''breakthrough'', WordB]),
       rgx ''~bmagic~b''
        (seqs [WordB, lit ''magic'', WordB]),
       rgx ''~binstant~b''
        (seqs [WordB, lit ''instant'', WordB]),
       rgx ''~bimmediate~b''
        (seqs [WordB, lit ''immediate'', WordB]),
       rgx ''~bovernight~b''
        (seqs [WordB, lit ''overnight'', WordB]),
       rgx ''~bcure~b''
        (seqs [WordB, lit ''cure'', WordB]),
       rgx ''~bguaranteed~b''
        (seqs [WordB, lit ''guaranteed'', WordB]),
       rgx ''~b100%~s+effective~b''
        (seqs [WordB, lit ''100%'', many1 Space, lit ''effective'', WordB]),
       rgx ''~bno~s+side~s+effects~b''
        (seqs [WordB, lit ''no'', many1 Space, lit ''side'', many1 Space, lit ''effects'', WordB]),
       rgx ''~brisk[-~s]free~b''
        (seqs [WordB, lit ''risk'', alts [Chr CHR ''-'', Space], lit ''free'', WordB])],
     context_exceptions = None,
     page_type_rules = None\<rparr>"

definition weight_loss_claims :: rule where
  "weight_loss_claims =
    \<lparr>rule_category = ''ftc'', rule_severity = ''high'',
     patterns =
      [rgx ''lose~s+~d+~s+(?:pounds|lbs)''
        (seqs [lit ''lose'', many1 Space, many1 Digit, many1 Space, alts [lit ''pounds'', lit ''lbs'']]),
       rgx ''lose~s+weight~s+without~s+(?:diet|exercise)''
        (seqs [lit ''lose'', many1 Space, lit ''weight'', many1 Space, lit ''without'', many1 Space, alts [lit ''diet'', lit ''exercise'']]),
       rgx ''effortless~s+weight~s+loss''
        (seqs [lit ''effortless'', many1 Space, lit ''weight'', many1 Space, lit ''loss'']),
       rgx ''melt~s+away~s+fat''
        (seqs [lit ''melt'', many1 Space, lit ''away'', many1 Space, lit ''fat'']),
       rgx ''burn~s+fat~s+while~s+you~s+sleep''
        (seqs [lit ''burn'', many1 Space, lit ''fat'', many1 Space, lit ''while'', many1 Space, lit ''you'', many1 Space, lit ''sleep''])],
     context_exceptions = Some
      [rgx ''refund~s+(?:your~s+)?money~s+if~s+~d+~s+(?:pounds|lbs|kg)~s+(?:is|are)~s+not~s+lost~s+in~s+~d+~s+(?:days|weeks|months)''
        (seqs [lit ''refund'', many1 Space, opt (seqs [lit ''your'', many1 Space]), lit ''money'', many1 Space, lit ''if'', many1 Space, many1 Digit, many1 Space, alts [lit ''pounds'', lit ''lbs'', lit ''kg''], many1 Space, alts [lit ''is'', lit ''are''], many1 Space, lit ''not'', many1 Space, lit ''lost'', many1 Space, lit ''in'', many1 Space, many1 Digit, many1 Space, alts [lit ''days'', lit ''weeks'', lit ''months'']])],
     page_type_rules = None\<rparr>"

definition prohibited_terms :: rule where
  "prohibited_terms =
    \<lparr>rule_category = ''fda'', rule_severity = ''high'',
     patterns =
      [rgx ''~bproven~b''
        (seqs [WordB, lit ''proven'', WordB]),
       rgx ''~befficacy~b''
        (seqs [WordB, lit ''efficacy'', WordB]),
       rgx ''~bsafe~b''
        (seqs [WordB, lit ''safe'', WordB]),
       rgx ''~bsemaglutide~b''
        (seqs [WordB, lit ''semaglutide'', WordB]),
       rgx ''~btirzepatide~b''
        (seqs [WordB, lit ''tirzepatide'', WordB]),
       rgx ''~bsame~s+ingredients~b''
        (seqs [WordB, lit ''same'', many1 Space, lit ''ingredients'', WordB])],
     context_exceptions = None,
     page_type_rules = Some [''blog'' \<mapsto> ''check_context'', ''product'' \<mapsto> ''flag'', ''other'' \<mapsto> ''check_context'']\<rparr>"

definition medical_advice :: rule where
  "medical_advice =
    \<lparr>rule_category = ''fda'', rule_severity = ''medium'',
     patterns =
      [rgx ''(?:we|our~s+doctors)~s+(?:recommend|prescribe)''
        (seqs [alts [lit ''we'', seqs [lit ''our'', many1 Space, lit ''doctors'']], many1 Space, alts [lit ''recommend'', lit ''prescribe'']]),
       rgx ''(?:we|our~s+doctors)~s+(?:diagnose|treat|cure)''
        (seqs [alts [lit ''we'', seqs [lit ''our'', many1 Space, lit ''doctors'']], many1 Space, alts [lit ''diagnose'', lit ''treat'', lit ''cure'']]),
       rgx ''self[-~s]diagnose''
        (seqs [lit ''self'', alts [Chr CHR ''-'', Space], lit ''diagnose'']),
       rgx ''no~s+(?:doctor|physician)~s+visit~s+(?:needed|required|necessary)''
        (seqs [lit ''no'', many1 Space, alts [lit ''doctor'', lit ''physician''], many1 Space, lit ''visit'', many1 Space, alts [lit ''needed'', lit ''required'', lit ''necessary'']])],
     context_exceptions = None,
     page_type_rules = None\<rparr>"

definition hipaa_issues :: rule where
  "hipaa_issues =
    \<lparr>rule_category = ''hipaa'', rule_severity = ''high'',
     patterns =
      [rgx ''(?:we|our)~s+(?:share|sell)~s+your~s+(?:data|information)''
        (seqs [alts [lit ''we'', lit ''our''], many1 Space, Chr CHR ''s'', alts [lit ''hare'', lit ''ell''], many1 Space, lit ''your'', many1 Space, alts [lit ''data'', lit ''information'']]),
       rgx ''third[-~s]parties~s+may~s+access~s+your~s+(?:medical|health)~s+(?:data|information|records)''
        (seqs [lit ''third'', alts [Chr CHR ''-'', Space], lit ''parties'', many1 Space, lit ''may'', many1 Space, lit ''access'', many1 Space, lit ''your'', many1 Space, alts [lit ''medical'', lit ''health''], many1 Space, alts [lit ''data'', lit ''information'', lit ''records'']]),
       rgx ''not~s+responsible~s+for~s+(?:data|information)~s+(?:breach|leak|security)''
        (seqs [lit ''not'', many1 Space, lit ''responsible'', many1 Space, lit ''for'', many1 Space, alts [lit ''data'', lit ''information''], many1 Space, alts [lit ''breach'', lit ''leak'', lit ''security'']])],
     context_exceptions = None,
     page_type_rules = None\<rparr>"

definition prescription_issues :: rule where
  "prescription_issues =
    \<lparr>rule_category = ''legitscript'', rule_severity = ''high'',
     patterns =
      [rgx ''no~s+prescription~s+(?:needed|required|necessary)''
        (seqs [lit ''no'', many1 Space, lit ''prescription'', many1 Space, alts [lit ''needed'', lit ''required'', lit ''necessary'']]),
       rgx ''prescription[-~s]free''
        (seqs [lit ''prescription'', alts [Chr CHR ''-'', Space], lit ''free'']),
       rgx ''(?:get|obtain)~s+(?:medication|drugs|medicine)~s+without~s+(?:prescription|doctor)''
        (seqs [alts [lit ''get'', lit ''obtain''], many1 Space, alts [lit ''medication'', lit ''drugs'', lit ''medicine''], many1 Space, lit ''without'', many1 Space, alts [lit ''prescription'', lit ''doctor'']]),
       rgx ''online~s+(?:prescription|doctor)~s+approval~s+guaranteed''
        (seqs [lit ''online'', many1 Space, alts [lit ''prescription'', lit ''doctor''], many1 Space, lit ''approval'', many1 Space, lit ''guaranteed''])],
     context_exceptions = None,
     page_type_rules = None\<rparr>"

definition security_issues :: rule where
  "security_issues =
    \<lparr>rule_category = ''technical'', rule_severity = ''high'',
     patterns =
      [rgx ''not~s+secure''
        (seqs [lit ''not'', many1 Space, lit ''secure'']),
       rgx ''http://''
        (lit ''http://''),
       rgx ''we~s+do~s+not~s+encrypt''
        (seqs [lit ''we'', many1 Space, lit ''do'', many1 Space, lit ''not'', many1 Space, lit ''encrypt''])],
     context_exceptions = None,
     page_type_rules = None\<rparr>"

definition get_default_rules :: "(string \<times> rule) list" where
  "get_default_rules =
     [(''branded_medications'', branded_medications),
      (''miracle_claims'', miracle_claims),
      (''weight_loss_claims'', weight_loss_claims),
      (''prohibited_terms'', prohibited_terms),
      (''medical_advice'', medical_advice),
      (''hipaa_issues'', hipaa_issues),
      (''prescription_issues'', prescription_issues),
      (''security_issues'', security_issues)]"


subsection \<open>Findings\<close>

text \<open>
  A finding is the dictionary the analyzer appends to \<^verbatim>\<open>self.findings[url]\<close>. The keys
  \<^verbatim>\<open>type\<close> and \<^verbatim>\<open>context\<close> are the fields \<open>f_type\<close> and \<open>f_context\<close>. The key
  \<^verbatim>\<open>page_type\<close> is not written by every check, so the field is optional: \<open>None\<close>
  is a dictionary without that key.
\<close>

record finding =
  f_type :: string
  category :: string
  severity :: string
  pattern :: string
  matched_text :: string
  f_context :: string
  location :: string
  page_type :: "string option"

type_synonym findings = "(string \<times> finding list) list"

text \<open>
  \<^verbatim>\<open>self.findings[url].append(f)\<close> on a \<^verbatim>\<open>defaultdict(list)\<close>: a new key goes to the
  end of the dictionary, an old key keeps its place.
\<close>

fun append_finding :: "string \<Rightarrow> finding \<Rightarrow> findings \<Rightarrow> findings" where
  "append_finding url f [] = [(url, [f])]"
| "append_finding url f ((k, fs) # rest) =
     (if k = url then (k, fs @ [f]) # rest else (k, fs) # append_finding url f rest)"

definition append_findings :: "string \<Rightarrow> finding list \<Rightarrow> findings \<Rightarrow> findings" where
  "append_findings url new fnd = fold (append_finding url) new fnd"

definition all_findings :: "findings \<Rightarrow> finding list" where
  "all_findings fnd = concat (map snd fnd)"

text \<open>The two dictionaries \<^verbatim>\<open>_check_required_pages\<close> appends under the key \<^verbatim>\<open>site_wide\<close>.\<close>

definition missing_privacy_finding :: finding where
  "missing_privacy_finding =
     \<lparr>f_type = ''missing_privacy_policy'', category = ''hipaa'', severity = ''high'',
      pattern = ''privacy policy'', matched_text = ''N/A'',
      f_context = ''No privacy policy found on the website'', location = ''site_wide'',
      page_type = None\<rparr>"

definition missing_terms_finding :: finding where
  "missing_terms_finding =
     \<lparr>f_type = ''missing_terms'', category = ''legal'', severity = ''medium'',
      pattern = ''terms of service'', matched_text = ''N/A'',
      f_context = ''No terms of service found on the website'', location = ''site_wide'',
      page_type = None\<rparr>"

subsection \<open>Crawled content\<close>

text \<open>
  The dictionaries the crawler stores per page. \<^verbatim>\<open>title\<close> is \<^verbatim>\<open>soup.title.string\<close>,
  which may be Python's \<^verbatim>\<open>None\<close>; \<open>pd_page_type\<close> is the key \<^verbatim>\<open>page_type\<close>, which
  the analyzer reads with \<^verbatim>\<open>.get('page_type', 'other')\<close>.
\<close>

record page_data =
  title :: "string option"
  html :: string
  page_text :: string
  meta_description :: string
  headers :: "string list"
  pd_page_type :: "string option"

record form_input =
  in_type :: string
  in_name :: string
  in_id :: string
  in_placeholder :: string
  in_required :: bool

record form =
  form_action :: string
  form_method :: string
  form_inputs :: "form_input list"

record image_data =
  img_src :: string
  img_alt :: string
  img_title :: string

record pdf_link =
  pdf_url :: string
  pdf_text :: string

record corpus =
  pages :: "(string \<times> page_data) list"
  forms :: "(string \<times> form list) list"
  images :: "(string \<times> image_data list) list"
  pdfs :: "(string \<times> pdf_link list) list"
  page_types :: "(string \<times> string) list"

subsection \<open>Rule engine\<close>

text \<open>
  Each check of \<^verbatim>\<open>ComplianceAnalyzer\<close> appends to \<^verbatim>\<open>self.findings[url]\<close>. Here a check
  first lists the findings it appends, in the order of its loops, and then appends them;
  \<^verbatim>\<open>self.rules\<close> and \<^verbatim>\<open>self.findings\<close> are passed and returned.
\<close>

definition rule_finding ::
  "string \<Rightarrow> rule \<Rightarrow> regex \<Rightarrow> string \<Rightarrow> string \<Rightarrow> string \<Rightarrow> string \<Rightarrow> finding" where
  "rule_finding rule_name r p matched ctx loc pt =
     \<lparr>f_type = rule_name, category = rule_category r, severity = rule_severity r,
      pattern = re_source p, matched_text = matched, f_context = ctx, location = loc,
      page_type = Some pt\<rparr>"

text \<open>
  \<^verbatim>\<open>text[max(0, match.start() - n) : min(len(text), match.end() + n)]\<close> and
  \<^verbatim>\<open>match.group(0)\<close>, for a match given by its start and end.
\<close>

definition ctx_window :: "nat \<Rightarrow> string \<Rightarrow> nat \<times> nat \<Rightarrow> string" where
  "ctx_window n txt m =
     (let start = nat (max 0 (int (fst m) - int n));
          stop = min (length txt) (snd m + n)
      in py_slice txt start stop)"

definition group0 :: "string \<Rightarrow> nat \<times> nat \<Rightarrow> string" where
  "group0 txt m = py_slice txt (fst m) (snd m)"

text \<open>
  \<^verbatim>\<open>'page_type_rules' in rule and page_type in rule['page_type_rules']\<close>, with the action
  found there.
\<close>

definition rule_action :: "rule \<Rightarrow> string \<Rightarrow> string option" where
  "rule_action r pt = (case page_type_rules r of None \<Rightarrow> None | Some actions \<Rightarrow> actions pt)"

text \<open>The loop over \<^verbatim>\<open>rule['context_exceptions']\<close> that sets \<^verbatim>\<open>exception_found\<close>.\<close>

definition exception_found :: "rule \<Rightarrow> string \<Rightarrow> bool" where
  "exception_found r window =
     (case context_exceptions r of
        None \<Rightarrow> False
      | Some exceptions \<Rightarrow> list_ex (\<lambda>e. re_search (re_ast e) window) exceptions)"

text \<open>The branch \<^verbatim>\<open>rule_action == 'flag'\<close> of \<^verbatim>\<open>_analyze_text_content\<close>.\<close>

definition flag_findings :: "string \<Rightarrow> rule \<Rightarrow> string \<Rightarrow> string \<Rightarrow> finding list" where
  "flag_findings rule_name r txt pt =
     concat (map (\<lambda>p.
        map (\<lambda>m. rule_finding rule_name r p (group0 txt m) (py_strip (ctx_window 50 txt m))
                    ''page_content'' pt)
            (re_finditer (re_ast p) txt))
       (patterns r))"

text \<open>The standard pattern checking with exceptions of \<^verbatim>\<open>_analyze_text_content\<close>.\<close>

definition standard_findings :: "string \<Rightarrow> rule \<Rightarrow> string \<Rightarrow> string \<Rightarrow> finding list" where
  "standard_findings rule_name r txt pt =
     concat (map (\<lambda>p.
        map (\<lambda>m. rule_finding rule_name r p (group0 txt m) (py_strip (ctx_window 50 txt m))
                    ''page_content'' pt)
            (filter (\<lambda>m. \<not> exception_found r (ctx_window 100 txt m))
                    (re_finditer (re_ast p) txt)))
       (patterns r))"

definition text_rule_findings :: "string \<Rightarrow> rule \<Rightarrow> string \<Rightarrow> string \<Rightarrow> finding list" where
  "text_rule_findings rule_name r txt pt =
     (case rule_action r pt of
        None \<Rightarrow> standard_findings rule_name r txt pt
      | Some act \<Rightarrow>
          if act = ''allow'' then []
          else if act = ''flag'' then flag_findings rule_name r txt pt
          else standard_findings rule_name r txt pt)"

definition analyze_text_content ::
  "(string \<times> rule) list \<Rightarrow> string \<Rightarrow> string \<Rightarrow> string option \<Rightarrow> string \<Rightarrow> findings \<Rightarrow> findings" where
  "analyze_text_content rules url txt ttl pt fnd =
     append_findings url
       (concat (map (\<lambda>(rule_name, r). text_rule_findings rule_name r txt pt) rules)) fnd"

text \<open>\<^verbatim>\<open>_analyze_headers\<close>: one finding for a header and a pattern that matches it.\<close>

definition header_rule_findings :: "string \<Rightarrow> rule \<Rightarrow> string \<Rightarrow> string \<Rightarrow> finding list" where
  "header_rule_findings rule_name r header pt =
     (if rule_action r pt = Some ''allow'' then []
      else concat (map (\<lambda>p.
             if re_search (re_ast p) header \<and> \<not> exception_found r header
             then [rule_finding rule_name r p header header ''header'' pt]
             else [])
           (patterns r)))"

definition analyze_headers ::
  "(string \<times> rule) list \<Rightarrow> string \<Rightarrow> string list \<Rightarrow> string \<Rightarrow> findings \<Rightarrow> findings" where
  "analyze_headers rules url hs pt fnd =
     append_findings url
       (concat (map (\<lambda>header.
          concat (map (\<lambda>(rule_name, r). header_rule_findings rule_name r header pt) rules)) hs))
       fnd"

text \<open>\<^verbatim>\<open>_check_https\<close>. The dictionary it appends has no key \<^verbatim>\<open>page_type\<close>.\<close>

definition https_finding :: "string \<Rightarrow> finding" where
  "https_finding url =
     \<lparr>f_type = ''security_issues'', category = ''technical'', severity = ''high'',
      pattern = ''http://'', matched_text = url, f_context = ''Non-secure URL: '' @ url,
      location = ''url'', page_type = None\<rparr>"

definition check_https :: "string \<Rightarrow> findings \<Rightarrow> findings" where
  "check_https url fnd =
     (if py_startswith url ''http://'' then append_finding url (https_finding url) fnd else fnd)"

text \<open>\<^verbatim>\<open>_analyze_forms\<close>.\<close>

definition health_patterns :: "regex list" where
  "health_patterns =
     [rgx ''health'' (lit ''health''), rgx ''medical'' (lit ''medical''),
      rgx ''symptom'' (lit ''symptom''), rgx ''condition'' (lit ''condition''),
      rgx ''diagnosis'' (lit ''diagnosis''), rgx ''treatment'' (lit ''treatment''),
      rgx ''medication'' (lit ''medication''), rgx ''prescription'' (lit ''prescription''),
      rgx ''weight'' (lit ''weight''), rgx ''height'' (lit ''height''),
      rgx ''bmi'' (lit ''bmi''), rgx ''blood'' (lit ''blood'')]"

definition sensitive_inputs :: "form \<Rightarrow> form_input list" where
  "sensitive_inputs frm =
     concat (map (\<lambda>input_data.
        concat (map (\<lambda>p.
           if re_search (re_ast p) (py_lower (in_name input_data)) \<or>
              re_search (re_ast p) (py_lower (in_id input_data)) \<or>
              re_search (re_ast p) (py_lower (in_placeholder input_data))
           then [input_data] else [])
          health_patterns))
       (form_inputs frm))"

definition form_action_finding :: "nat \<Rightarrow> form \<Rightarrow> string \<Rightarrow> finding" where
  "form_action_finding form_index frm pt =
     \<lparr>f_type = ''security_issues'', category = ''technical'', severity = ''high'',
      pattern = ''http://'', matched_text = form_action frm,
      f_context = ''Form submits to non-secure URL: '' @ form_action frm,
      location = ''form_'' @ str_nat form_index @ ''_action'', page_type = Some pt\<rparr>"

definition form_method_finding :: "nat \<Rightarrow> form \<Rightarrow> string \<Rightarrow> finding" where
  "form_method_finding form_index frm pt =
     \<lparr>f_type = ''security_issues'', category = ''technical'', severity = ''medium'',
      pattern = ''form method'', matched_text = form_method frm,
      f_context = ''Form with sensitive health information uses '' @ form_method frm
                  @ '' method instead of POST'',
      location = ''form_'' @ str_nat form_index @ ''_method'', page_type = Some pt\<rparr>"

definition form_findings :: "nat \<Rightarrow> form \<Rightarrow> string \<Rightarrow> finding list" where
  "form_findings form_index frm pt =
     (if form_action frm \<noteq> [] \<and> py_startswith (form_action frm) ''http://''
      then [form_action_finding form_index frm pt] else [])
     @ (if sensitive_inputs frm \<noteq> [] \<and> py_lower (form_method frm) \<noteq> ''post''
        then [form_method_finding form_index frm pt] else [])"

definition analyze_forms :: "string \<Rightarrow> form list \<Rightarrow> string \<Rightarrow> findings \<Rightarrow> findings" where
  "analyze_forms url fs pt fnd =
     append_findings url
       (concat (map (\<lambda>(form_index, frm). form_findings form_index frm pt) (enumerate 0 fs))) fnd"

text \<open>\<^verbatim>\<open>_analyze_images\<close>, for one of the fields \<^verbatim>\<open>alt\<close> and \<^verbatim>\<open>title\<close> of an image.\<close>

definition image_field_findings ::
  "(string \<times> rule) list \<Rightarrow> string \<Rightarrow> string \<Rightarrow> string \<Rightarrow> finding list" where
  "image_field_findings rules text_field v pt =
     (if v = [] then []
      else concat (map (\<lambda>(rule_name, r).
             if rule_action r pt = Some ''allow'' then []
             else concat (map (\<lambda>p.
                    if re_search (re_ast p) v \<and> \<not> exception_found r v
                    then [rule_finding rule_name r p v (''Image '' @ text_field @ '': '' @ v)
                            (''image_'' @ text_field) pt]
                    else [])
                  (patterns r)))
           rules))"

definition analyze_images ::
  "(string \<times> rule) list \<Rightarrow> string \<Rightarrow> image_data list \<Rightarrow> string \<Rightarrow> findings \<Rightarrow> findings" where
  "analyze_images rules url imgs pt fnd =
     append_findings url
       (concat (map (\<lambda>img. image_field_findings rules ''alt'' (img_alt img) pt
                          @ image_field_findings rules ''title'' (img_title img) pt) imgs))
       fnd"

text \<open>
  \<^verbatim>\<open>_check_required_pages\<close>. The first loop searches the URLs; the second, entered when
  one of the two flags is still false, searches the lower-cased page texts for the
  flags that are still false.
\<close>

definition privacy_patterns :: "regex list" where
  "privacy_patterns =
     [rgx ''privacy'' (lit ''privacy''),
      rgx ''privacy~s+policy'' (seqs [lit ''privacy'', many1 Space, lit ''policy'']),
      rgx ''privacy~s+notice'' (seqs [lit ''privacy'', many1 Space, lit ''notice''])]"

definition terms_patterns :: "regex list" where
  "terms_patterns =
     [rgx ''terms'' (lit ''terms''),
      rgx ''terms~s+of~s+(?:use|service)''
        (seqs [lit ''terms'', many1 Space, lit ''of'', many1 Space, alts [lit ''use'', lit ''service'']]),
      rgx ''conditions'' (lit ''conditions'')]"

definition search_any :: "regex list \<Rightarrow> string \<Rightarrow> bool \<Rightarrow> bool" where
  "search_any ps s found = fold (\<lambda>p found'. if re_search (re_ast p) s then True else found') ps found"

definition urls_found :: "regex list \<Rightarrow> (string \<times> page_data) list \<Rightarrow> bool" where
  "urls_found ps pgs = fold (\<lambda>(url, pd) found. search_any ps url found) pgs False"

definition texts_found :: "regex list \<Rightarrow> (string \<times> page_data) list \<Rightarrow> bool \<Rightarrow> bool" where
  "texts_found ps pgs found0 =
     fold (\<lambda>(url, pd) found.
             if \<not> found then search_any ps (py_lower (page_text pd)) found else found)
          pgs found0"

definition privacy_found :: "(string \<times> page_data) list \<Rightarrow> bool" where
  "privacy_found pgs =
     (if \<not> urls_found privacy_patterns pgs \<or> \<not> urls_found terms_patterns pgs
      then texts_found privacy_patterns pgs (urls_found privacy_patterns pgs)
      else urls_found privacy_patterns pgs)"

definition terms_found :: "(string \<times> page_data) list \<Rightarrow> bool" where
  "terms_found pgs =
     (if \<not> urls_found privacy_patterns pgs \<or> \<not> urls_found terms_patterns pgs
      then texts_found terms_patterns pgs (urls_found terms_patterns pgs)
      else urls_found terms_patterns pgs)"

definition check_required_pages :: "(string \<times> page_data) list \<Rightarrow> findings \<Rightarrow> findings" where
  "check_required_pages pgs fnd =
     (let fnd1 = (if \<not> privacy_found pgs
                  then append_finding ''site_wide'' missing_privacy_finding fnd else fnd)
      in if \<not> terms_found pgs
         then append_finding ''site_wide'' missing_terms_finding fnd1 else fnd1)"

text \<open>\<^verbatim>\<open>analyze_pages\<close>: the four checks for every page, then the site-wide check.\<close>

definition page_type_of :: "page_data \<Rightarrow> string" where
  "page_type_of pd = (case pd_page_type pd of None \<Rightarrow> ''other'' | Some pt \<Rightarrow> pt)"

definition analyze_page ::
  "(string \<times> rule) list \<Rightarrow> corpus \<Rightarrow> string \<Rightarrow> page_data \<Rightarrow> findings \<Rightarrow> findings" where
  "analyze_page rules c url pd fnd =
     (let pt = page_type_of pd;
          fnd1 = analyze_text_content rules url (page_text pd) (title pd) pt fnd;
          fnd2 = analyze_headers rules url (headers pd) pt fnd1;
          fnd3 = check_https url fnd2;
          fnd4 = (case map_of (forms c) url of
                    None \<Rightarrow> fnd3 | Some fs \<Rightarrow> analyze_forms url fs pt fnd3)
      in case map_of (images c) url of
           None \<Rightarrow> fnd4 | Some imgs \<Rightarrow> analyze_images rules url imgs pt fnd4)"

definition page_findings :: "(string \<times> rule) list \<Rightarrow> corpus \<Rightarrow> findings" where
  "page_findings rules c = fold (\<lambda>(url, pd) fnd. analyze_page rules c url pd fnd) (pages c) []"

subsection \<open>Score calculator\<close>

text \<open>
  The deductions are sums of integer counts times 5, 4, 3, 2, 1.5 and 0.5. Every such
  value is a multiple of one half, which binary floating point holds exactly (for counts
  below \<open>2^50\<close>), so the scores are modelled as rationals.
\<close>

record scores =
  hipaa :: rat
  fda :: rat
  legitscript :: rat
  ftc :: rat
  technical :: rat
  total_score :: rat

type_synonym category_counts = "string \<rightharpoonup> (string \<rightharpoonup> nat)"

definition zero_counts :: "string \<rightharpoonup> nat" where
  "zero_counts = [''high'' \<mapsto> 0, ''medium'' \<mapsto> 0, ''low'' \<mapsto> 0]"

definition init_counts :: category_counts where
  "init_counts = [''hipaa'' \<mapsto> zero_counts, ''fda'' \<mapsto> zero_counts,
     ''legitscript'' \<mapsto> zero_counts, ''ftc'' \<mapsto> zero_counts, ''technical'' \<mapsto> zero_counts]"

text \<open>
  The body of the counting loop:
  \<^verbatim>\<open>if category in category_counts and severity in category_counts[category]:
      category_counts[category][severity] += 1\<close>
\<close>

definition count_finding :: "finding \<Rightarrow> category_counts \<Rightarrow> category_counts" where
  "count_finding f cc =
     (case cc (category f) of
        None \<Rightarrow> cc
      | Some by_sev \<Rightarrow>
          (case by_sev (severity f) of
             None \<Rightarrow> cc
           | Some n \<Rightarrow> cc(category f \<mapsto> by_sev(severity f \<mapsto> n + 1))))"

definition count_findings :: "findings \<Rightarrow> category_counts \<Rightarrow> category_counts" where
  "count_findings fnd cc = fold (\<lambda>(url, url_findings) cc'. fold count_finding url_findings cc') fnd cc"

text \<open>
  \<^verbatim>\<open>category_counts[c][s]\<close>. Both keys are present for every lookup the calculator
  makes (lemma \<open>count_findings_keys\<close>), so the \<^verbatim>\<open>KeyError\<close> branch, read as 0 here, is
  never taken.
\<close>

definition lookup_count :: "category_counts \<Rightarrow> string \<Rightarrow> string \<Rightarrow> nat" where
  "lookup_count cc c s =
     (case cc c of None \<Rightarrow> 0 | Some by_sev \<Rightarrow> (case by_sev s of None \<Rightarrow> 0 | Some n \<Rightarrow> n))"

definition deductions :: "category_counts \<Rightarrow> string \<Rightarrow> rat \<Rightarrow> rat \<Rightarrow> rat \<Rightarrow> rat" where
  "deductions cc c w_high w_medium w_low =
     of_nat (lookup_count cc c ''high'') * w_high
     + of_nat (lookup_count cc c ''medium'') * w_medium
     + of_nat (lookup_count cc c ''low'') * w_low"

definition calculate_scores :: "findings \<Rightarrow> scores" where
  "calculate_scores fnd =
     (let cc = count_findings fnd init_counts;
          hipaa_deductions = deductions cc ''hipaa'' 5 2 0.5;
          s_hipaa = max 0 (25 - min hipaa_deductions 25);
          fda_deductions = deductions cc ''fda'' 5 2 0.5;
          s_fda = max 0 (25 - min fda_deductions 25);
          legitscript_deductions = deductions cc ''legitscript'' 4 1.5 0.5;
          s_legitscript = max 0 (20 - min legitscript_deductions 20);
          ftc_deductions = deductions cc ''ftc'' 3 1.5 0.5;
          s_ftc = max 0 (15 - min ftc_deductions 15);
          technical_deductions = deductions cc ''technical'' 3 1.5 0.5;
          s_technical = max 0 (15 - min technical_deductions 15)
      in \<lparr>hipaa = s_hipaa, fda = s_fda, legitscript = s_legitscript, ftc = s_ftc,
           technical = s_technical,
           total_score = sum_list [s_hipaa, s_fda, s_legitscript, s_ftc, s_technical]\<rparr>)"

text \<open>The specification's reading of the same numbers, for comparison with the code.\<close>

definition severity_count :: "findings \<Rightarrow> string \<Rightarrow> string \<Rightarrow> nat" where
  "severity_count fnd c s =
     length (filter (\<lambda>f. category f = c \<and> severity f = s) (all_findings fnd))"

definition spec_score :: "findings \<Rightarrow> string \<Rightarrow> rat \<Rightarrow> rat \<Rightarrow> rat \<Rightarrow> rat \<Rightarrow> rat" where
  "spec_score fnd c cap w_high w_medium w_low =
     max 0 (cap - min cap (of_nat (severity_count fnd c ''high'') * w_high
                         + of_nat (severity_count fnd c ''medium'') * w_medium
                         + of_nat (severity_count fnd c ''low'') * w_low))"

definition scored_categories :: "string list" where
  "scored_categories = [''hipaa'', ''fda'', ''legitscript'', ''ftc'', ''technical'']"

definition scored_severities :: "string list" where
  "scored_severities = [''high'', ''medium'', ''low'']"

text \<open>
  The result of \<^verbatim>\<open>analyze_pages\<close>: the findings of all pages and of the site-wide check,
  and the scores computed from them.
\<close>

definition analyze_pages :: "(string \<times> rule) list \<Rightarrow> corpus \<Rightarrow> findings \<times> scores" where
  "analyze_pages rules c =
     (let fnd = check_required_pages (pages c) (page_findings rules c)
      in (fnd, calculate_scores fnd))"



text \<open>The key invariant of the counting loop: the tally keeps the keys it started with.\<close>

definition keys_ok :: "category_counts \<Rightarrow> bool" where
  "keys_ok cc = (dom cc = set scored_categories \<and>
     (\<forall>c m. cc c = Some m \<longrightarrow> dom m = set scored_severities))"

subsection \<open>Readings of the specification\<close>

text \<open>
  \<^verbatim>\<open>self.findings[url]\<close>, the windows of 50 and of 100 characters before and after a
  match as the specification words them, and its test for suppressing a match.
\<close>

definition findings_at :: "findings \<Rightarrow> string \<Rightarrow> finding list" where
  "findings_at fnd url = (case map_of fnd url of None \<Rightarrow> [] | Some fs \<Rightarrow> fs)"

definition tight_window :: "string \<Rightarrow> nat \<times> nat \<Rightarrow> string" where
  "tight_window txt m = take (min (length txt) (snd m + 50) - (fst m - 50)) (drop (fst m - 50) txt)"

definition wide_window :: "string \<Rightarrow> nat \<times> nat \<Rightarrow> string" where
  "wide_window txt m = take (min (length txt) (snd m + 100) - (fst m - 100)) (drop (fst m - 100) txt)"

definition suppressed :: "rule \<Rightarrow> string \<Rightarrow> nat \<times> nat \<Rightarrow> bool" where
  "suppressed r txt m =
     list_ex (\<lambda>e. re_search (re_ast e) (wide_window txt m))
       (case context_exceptions r of None \<Rightarrow> [] | Some exceptions \<Rightarrow> exceptions)"

subsection \<open>Example inputs\<close>

definition two_high_one_medium :: findings where
  "two_high_one_medium =
     [(''https://a.com/'', [missing_privacy_finding, missing_privacy_finding]),
      (''https://a.com/p'', [missing_privacy_finding\<lparr>severity := ''medium''\<rparr>, missing_terms_finding])]"

definition flagged_text :: string where
  "flagged_text = ''Proven to help our members reach their goals week after week''"

definition flagged_finding :: finding where
  "flagged_finding =
     \<lparr>f_type = ''prohibited_terms'', category = ''fda'', severity = ''high'',
      pattern = raw ''~bproven~b'', matched_text = ''Proven'',
      f_context = ''Proven to help our members reach their goals week after'',
      location = ''page_content'', page_type = Some ''product''\<rparr>"

definition excused_text :: string where
  "excused_text = ''Not the same as Ozempic, yet proven''"

definition branded_text :: string where
  "branded_text = ''Ozempic is a medicine many of our members ask about this month''"

definition branded_finding :: finding where
  "branded_finding =
     \<lparr>f_type = ''branded_medications'', category = ''fda'', severity = ''high'',
      pattern = raw ''~bOzempic~b'', matched_text = ''Ozempic'',
      f_context = ''Ozempic is a medicine many of our members ask about this'',
      location = ''page_content'', page_type = Some ''other''\<rparr>"

definition compared_text :: string where
  "compared_text = ''Our plan is not the same as Ozempic''"

section \<open>Properties\<close>

subsection \<open>Score calculator\<close>

lemma keys_ok_init: "keys_ok init_counts"
  by (auto simp: keys_ok_def init_counts_def zero_counts_def scored_categories_def scored_severities_def split: if_splits)

lemma lookup_init: "lookup_count init_counts c s = 0"
  by (simp add: lookup_count_def init_counts_def zero_counts_def)

lemma keys_ok_count_finding:
  assumes "keys_ok cc"
  shows "keys_ok (count_finding f cc)"
proof (cases "cc (category f)")
  case None
  then show ?thesis using assms by (simp add: count_finding_def)
next
  case (Some m)
  show ?thesis
  proof (cases "m (severity f)")
    case None
    then show ?thesis using assms Some by (simp add: count_finding_def)
  next
    case (Some n)
    have eq: "count_finding f cc = cc(category f \<mapsto> m(severity f \<mapsto> n + 1))"
      using \<open>cc (category f) = Some m\<close> Some by (simp add: count_finding_def)
    have dm: "dom m = set scored_severities"
      using assms \<open>cc (category f) = Some m\<close> by (simp add: keys_ok_def)
    have "severity f \<in> dom m" using Some by blast
    then have dm': "dom (m(severity f \<mapsto> n + 1)) = set scored_severities"
      using dm by auto
    have "category f \<in> dom cc" using \<open>cc (category f) = Some m\<close> by blast
    then have dc: "dom (cc(category f \<mapsto> m(severity f \<mapsto> n + 1))) = set scored_categories"
      using assms by (auto simp: keys_ok_def)
    show ?thesis
      unfolding eq keys_ok_def using dc dm' assms by (auto simp: keys_ok_def)
  qed
qed

lemma lookup_count_finding:
  assumes "keys_ok cc"
  shows "lookup_count (count_finding f cc) c s =
     lookup_count cc c s +
       (if category f = c \<and> severity f = s \<and> c \<in> set scored_categories \<and> s \<in> set scored_severities
        then 1 else 0)"
proof (cases "cc (category f)")
  case None
  then have "category f \<notin> set scored_categories" using assms by (auto simp: keys_ok_def)
  then show ?thesis using None by (auto simp: count_finding_def)
next
  case (Some m)
  have cat: "category f \<in> set scored_categories" using assms Some by (auto simp: keys_ok_def)
  have dm: "dom m = set scored_severities" using assms Some by (simp add: keys_ok_def)
  show ?thesis
  proof (cases "m (severity f)")
    case None
    then have "severity f \<notin> set scored_severities" using dm by auto
    then show ?thesis using None Some by (auto simp: count_finding_def)
  next
    case (Some n)
    have sev: "severity f \<in> set scored_severities" using dm Some by auto
    have eq: "count_finding f cc = cc(category f \<mapsto> m(severity f \<mapsto> n + 1))"
      using \<open>cc (category f) = Some m\<close> Some by (simp add: count_finding_def)
    show ?thesis
      unfolding eq using \<open>cc (category f) = Some m\<close> Some cat sev
      by (auto simp: lookup_count_def)
  qed
qed

lemma fold_count_finding:
  "keys_ok cc \<Longrightarrow>
     keys_ok (fold count_finding fs cc) \<and>
     lookup_count (fold count_finding fs cc) c s =
       lookup_count cc c s +
         (if c \<in> set scored_categories \<and> s \<in> set scored_severities
          then length (filter (\<lambda>f. category f = c \<and> severity f = s) fs) else 0)"
proof (induction fs arbitrary: cc)
  case Nil
  then show ?case by simp
next
  case (Cons f fs)
  have ok: "keys_ok (count_finding f cc)" using Cons.prems by (rule keys_ok_count_finding)
  show ?case
    using Cons.IH [OF ok] lookup_count_finding [OF Cons.prems, of f c s] by simp
qed

lemma count_findings_lookup:
  "keys_ok cc \<Longrightarrow>
     keys_ok (count_findings fnd cc) \<and>
     lookup_count (count_findings fnd cc) c s =
       lookup_count cc c s +
         (if c \<in> set scored_categories \<and> s \<in> set scored_severities
          then severity_count fnd c s else 0)"
proof (induction fnd arbitrary: cc)
  case Nil
  then show ?case by (simp add: count_findings_def severity_count_def all_findings_def)
next
  case (Cons p fnd)
  obtain url ufs where p: "p = (url, ufs)" by (cases p)
  have step: "count_findings (p # fnd) cc = count_findings fnd (fold count_finding ufs cc)"
    by (simp add: count_findings_def p)
  have ok: "keys_ok (fold count_finding ufs cc)"
    using fold_count_finding [OF Cons.prems] by blast
  have cnt: "severity_count (p # fnd) c s =
      length (filter (\<lambda>f. category f = c \<and> severity f = s) ufs) + severity_count fnd c s"
    by (simp add: severity_count_def all_findings_def p)
  show ?case
    unfolding step using Cons.IH [OF ok] fold_count_finding [OF Cons.prems, of ufs c s] cnt
    by simp
qed

lemma count_findings_keys: "keys_ok (count_findings fnd init_counts)"
  using count_findings_lookup [OF keys_ok_init] by blast

lemma lookup_counted:
  "c \<in> set scored_categories \<Longrightarrow> s \<in> set scored_severities \<Longrightarrow>
     lookup_count (count_findings fnd init_counts) c s = severity_count fnd c s"
  using count_findings_lookup [OF keys_ok_init, of fnd c s] by (simp add: lookup_init)

lemma deductions_spec:
  "c \<in> set scored_categories \<Longrightarrow>
   deductions (count_findings fnd init_counts) c wh wm wl =
     of_nat (severity_count fnd c ''high'') * wh + of_nat (severity_count fnd c ''medium'') * wm
     + of_nat (severity_count fnd c ''low'') * wl"
  by (simp add: deductions_def lookup_counted scored_severities_def)

lemma calculate_scores_spec:
  "calculate_scores fnd =
     \<lparr>hipaa = spec_score fnd ''hipaa'' 25 5 2 0.5,
      fda = spec_score fnd ''fda'' 25 5 2 0.5,
      legitscript = spec_score fnd ''legitscript'' 20 4 1.5 0.5,
      ftc = spec_score fnd ''ftc'' 15 3 1.5 0.5,
      technical = spec_score fnd ''technical'' 15 3 1.5 0.5,
      total_score = spec_score fnd ''hipaa'' 25 5 2 0.5 + spec_score fnd ''fda'' 25 5 2 0.5
        + spec_score fnd ''legitscript'' 20 4 1.5 0.5 + spec_score fnd ''ftc'' 15 3 1.5 0.5
        + spec_score fnd ''technical'' 15 3 1.5 0.5\<rparr>"
  by (simp add: calculate_scores_def Let_def spec_score_def deductions_spec scored_categories_def
      min.commute)

lemma spec_score_bounds:
  "0 \<le> cap \<Longrightarrow> 0 \<le> wh \<Longrightarrow> 0 \<le> wm \<Longrightarrow> 0 \<le> wl \<Longrightarrow>
   0 \<le> spec_score fnd c cap wh wm wl \<and> spec_score fnd c cap wh wm wl \<le> cap"
  unfolding spec_score_def by (simp add: max_def min_def)

lemma severity_count_empty: "all_findings fnd = [] \<Longrightarrow> severity_count fnd c s = 0"
  by (simp add: severity_count_def)

text \<open>
  Claim C1. For every finding set, each of the five category scores computed by
  \<^verbatim>\<open>_calculate_scores\<close> equals \<open>max 0 (cap - min cap (\<Sum> count \<times> weight))\<close> with the caps and
  weights of the table (hipaa 25/5/2/0.5, fda 25/5/2/0.5, legitscript 20/4/1.5/0.5,
  ftc 15/3/1.5/0.5, technical 15/3/1.5/0.5), where the counts are the numbers of findings
  of that category and severity; the total is the sum of the five scores and lies between
  0 and 100; two hipaa/high findings and one hipaa/medium finding give the hipaa score 13;
  no finding at all gives the total 100.
\<close>

theorem C1_scores:
  "hipaa (calculate_scores fnd) = spec_score fnd ''hipaa'' 25 5 2 0.5 \<and>
   fda (calculate_scores fnd) = spec_score fnd ''fda'' 25 5 2 0.5 \<and>
   legitscript (calculate_scores fnd) = spec_score fnd ''legitscript'' 20 4 1.5 0.5 \<and>
   ftc (calculate_scores fnd) = spec_score fnd ''ftc'' 15 3 1.5 0.5 \<and>
   technical (calculate_scores fnd) = spec_score fnd ''technical'' 15 3 1.5 0.5 \<and>
   total_score (calculate_scores fnd) =
     hipaa (calculate_scores fnd) + fda (calculate_scores fnd) + legitscript (calculate_scores fnd)
     + ftc (calculate_scores fnd) + technical (calculate_scores fnd) \<and>
   0 \<le> total_score (calculate_scores fnd) \<and> total_score (calculate_scores fnd) \<le> 100 \<and>
   (severity_count fnd ''hipaa'' ''high'' = 2 \<and> severity_count fnd ''hipaa'' ''medium'' = 1 \<and>
    severity_count fnd ''hipaa'' ''low'' = 0 \<longrightarrow> hipaa (calculate_scores fnd) = 13) \<and>
   (all_findings fnd = [] \<longrightarrow> total_score (calculate_scores fnd) = 100)"
proof -
  note b1 = spec_score_bounds [where cap = 25 and fnd = fnd and c = "''hipaa''" and wh = 5 and wm = "2" and wl = "0.5"]
  note b2 = spec_score_bounds [where cap = 25 and fnd = fnd and c = "''fda''" and wh = 5 and wm = "2" and wl = "0.5"]
  note b3 = spec_score_bounds [where cap = 20 and fnd = fnd and c = "''legitscript''" and wh = 4 and wm = "1.5" and wl = "0.5"]
  note b4 = spec_score_bounds [where cap = 15 and fnd = fnd and c = "''ftc''" and wh = 3 and wm = "1.5" and wl = "0.5"]
  note b5 = spec_score_bounds [where cap = 15 and fnd = fnd and c = "''technical''" and wh = 3 and wm = "1.5" and wl = "0.5"]
  have range: "0 \<le> total_score (calculate_scores fnd) \<and> total_score (calculate_scores fnd) \<le> 100"
    using b1 b2 b3 b4 b5 by (simp add: calculate_scores_spec)
  have ex: "severity_count fnd ''hipaa'' ''high'' = 2 \<and> severity_count fnd ''hipaa'' ''medium'' = 1 \<and>
    severity_count fnd ''hipaa'' ''low'' = 0 \<longrightarrow> hipaa (calculate_scores fnd) = 13"
    by (simp add: calculate_scores_spec spec_score_def)
  have empty: "all_findings fnd = [] \<longrightarrow> total_score (calculate_scores fnd) = 100"
    by (simp add: calculate_scores_spec spec_score_def severity_count_empty)
  show ?thesis using range ex empty by (simp add: calculate_scores_spec)
qed

theorem C1_scores_witness:
  "severity_count two_high_one_medium ''hipaa'' ''high'' = 2 \<and>
   severity_count two_high_one_medium ''hipaa'' ''medium'' = 1 \<and>
   severity_count two_high_one_medium ''hipaa'' ''low'' = 0 \<and>
   hipaa (calculate_scores two_high_one_medium) = 13 \<and>
   all_findings [] = [] \<and> total_score (calculate_scores []) = 100"
proof -
  have c: "severity_count two_high_one_medium ''hipaa'' ''high'' = 2 \<and>
   severity_count two_high_one_medium ''hipaa'' ''medium'' = 1 \<and>
   severity_count two_high_one_medium ''hipaa'' ''low'' = 0"
    by (simp add: severity_count_def all_findings_def two_high_one_medium_def
        missing_privacy_finding_def missing_terms_finding_def)
  have e: "all_findings [] = []" by (simp add: all_findings_def)
  show ?thesis using c e C1_scores [of two_high_one_medium] C1_scores [of "[]"] by simp
qed



lemma set_append_finding:
  "set (all_findings (append_finding url f fnd)) = insert f (set (all_findings fnd))"
  by (induction url f fnd rule: append_finding.induct) (auto simp: all_findings_def)








subsection \<open>Appending findings\<close>

lemma map_of_append_finding:
  "map_of (append_finding url f fnd) = (map_of fnd)(url \<mapsto> findings_at fnd url @ [f])"
  by (induction url f fnd rule: append_finding.induct) (auto simp: findings_at_def fun_eq_iff)

lemma findings_at_append_finding:
  "findings_at (append_finding url f fnd) k =
     (if k = url then findings_at fnd url @ [f] else findings_at fnd k)"
  by (simp add: findings_at_def map_of_append_finding)

lemma findings_at_append_findings:
  "findings_at (append_findings url new fnd) k =
     (if k = url then findings_at fnd url @ new else findings_at fnd k)"
  unfolding append_findings_def
  by (induction new arbitrary: fnd) (auto simp: findings_at_append_finding)

lemma set_append_findings:
  "set (all_findings (append_findings url new fnd)) = set (all_findings fnd) \<union> set new"
  unfolding append_findings_def
  by (induction new arbitrary: fnd) (auto simp: set_append_finding)

subsection \<open>Body-text scan\<close>

lemma ctx_window_eq:
  "ctx_window n txt m = take (min (length txt) (snd m + n) - (fst m - n)) (drop (fst m - n) txt)"
proof -
  have "nat (max 0 (int (fst m) - int n)) = fst m - n" by simp
  then show ?thesis by (simp add: ctx_window_def py_slice_def Let_def)
qed

lemma ctx_window_tight: "ctx_window 50 txt m = tight_window txt m"
  by (simp add: ctx_window_eq tight_window_def)

lemma ctx_window_wide: "ctx_window 100 txt m = wide_window txt m"
  by (simp add: ctx_window_eq wide_window_def)

lemma exception_found_suppressed: "exception_found r (ctx_window 100 txt m) = suppressed r txt m"
  by (simp add: exception_found_def suppressed_def ctx_window_wide split: option.splits)

lemma flag_ignores_exceptions:
  "flag_findings rn (r\<lparr>context_exceptions := e\<rparr>) txt pt = flag_findings rn r txt pt"
  by (simp add: flag_findings_def rule_finding_def)

lemma text_findings_in_page:
  assumes "(rn, r) \<in> set rules"
  shows "set (text_rule_findings rn r txt pt)
           \<subseteq> set (findings_at (analyze_text_content rules url txt ttl pt fnd) url)"
  using assms by (force simp: analyze_text_content_def findings_at_append_findings)

lemma flag_findings_eq:
  "flag_findings rn r txt pt =
     concat (map (\<lambda>p.
       map (\<lambda>m. \<lparr>f_type = rn, category = rule_category r, severity = rule_severity r,
                 pattern = re_source p, matched_text = group0 txt m,
                 f_context = py_strip (tight_window txt m),
                 location = ''page_content'', page_type = Some pt\<rparr>)
           (re_finditer (re_ast p) txt))
       (patterns r))"
  by (simp add: flag_findings_def rule_finding_def ctx_window_tight)

lemma standard_findings_eq:
  "standard_findings rn r txt pt =
     concat (map (\<lambda>p.
       map (\<lambda>m. \<lparr>f_type = rn, category = rule_category r, severity = rule_severity r,
                 pattern = re_source p, matched_text = group0 txt m,
                 f_context = py_strip (tight_window txt m),
                 location = ''page_content'', page_type = Some pt\<rparr>)
           (filter (\<lambda>m. \<not> suppressed r txt m) (re_finditer (re_ast p) txt)))
       (patterns r))"
  by (simp add: standard_findings_def rule_finding_def ctx_window_tight exception_found_suppressed)

text \<open>
  Claim C2, as amended. On a page whose type resolves the rule's policy to \<^verbatim>\<open>flag\<close>, the
  body-text scan appends, for every pattern of the rule in order and every match of the
  pattern in order, exactly one finding; the rule's context exceptions have no influence
  (changing them changes nothing); the finding's context snippet is the window of 50
  characters before and after the match with leading and trailing whitespace stripped.
  These findings are among those the scan of the page stores under the page's URL.
\<close>

theorem C2_flag:
  assumes "rule_action r pt = Some ''flag''"
  shows "text_rule_findings rn r txt pt =
           concat (map (\<lambda>p.
             map (\<lambda>m. \<lparr>f_type = rn, category = rule_category r, severity = rule_severity r,
                       pattern = re_source p, matched_text = group0 txt m,
                       f_context = py_strip (tight_window txt m),
                       location = ''page_content'', page_type = Some pt\<rparr>)
                 (re_finditer (re_ast p) txt))
             (patterns r)) \<and>
         text_rule_findings rn (r\<lparr>context_exceptions := e\<rparr>) txt pt = text_rule_findings rn r txt pt \<and>
         ((rn, r) \<in> set rules \<longrightarrow>
            set (text_rule_findings rn r txt pt)
              \<subseteq> set (findings_at (analyze_text_content rules url txt ttl pt fnd) url))"
proof -
  have act: "rule_action (r\<lparr>context_exceptions := e\<rparr>) pt = Some ''flag''"
    using assms by (simp add: rule_action_def)
  have a1: "text_rule_findings rn r txt pt = flag_findings rn r txt pt"
    using assms by (simp add: text_rule_findings_def)
  have a2: "text_rule_findings rn (r\<lparr>context_exceptions := e\<rparr>) txt pt = flag_findings rn r txt pt"
    using act by (simp add: text_rule_findings_def flag_ignores_exceptions)
  have a3: "(rn, r) \<in> set rules \<longrightarrow>
            set (text_rule_findings rn r txt pt)
              \<subseteq> set (findings_at (analyze_text_content rules url txt ttl pt fnd) url)"
    using text_findings_in_page by blast
  show ?thesis using a1 a2 a3 flag_findings_eq by simp
qed

text \<open>
  The rule \<^verbatim>\<open>prohibited_terms\<close> on a product page, given the context exceptions of
  \<^verbatim>\<open>branded_medications\<close>: the text holds an exception phrase next to the match, and
  the match is reported.
\<close>

theorem C2_flag_witness:
  "rule_action prohibited_terms ''product'' = Some ''flag'' \<and>
   (''prohibited_terms'', prohibited_terms) \<in> set get_default_rules \<and>
   re_search (re_ast (hd (the (context_exceptions branded_medications)))) excused_text \<and>
   map matched_text
     (text_rule_findings ''prohibited_terms''
        (prohibited_terms\<lparr>context_exceptions := context_exceptions branded_medications\<rparr>)
        excused_text ''product'') = [''proven''] \<and>
   set (text_rule_findings ''prohibited_terms'' prohibited_terms excused_text ''product'')
     \<subseteq> set (findings_at (analyze_text_content get_default_rules ''https://a.com/shop/x''
                   excused_text None ''product'' []) ''https://a.com/shop/x'')"
proof -
  have h: "rule_action prohibited_terms ''product'' = Some ''flag''"
    by code_simp
  have m: "(''prohibited_terms'', prohibited_terms) \<in> set get_default_rules"
    by (simp add: get_default_rules_def)
  have x: "re_search (re_ast (hd (the (context_exceptions branded_medications)))) excused_text"
    by code_simp
  have ev: "map matched_text
     (text_rule_findings ''prohibited_terms'' prohibited_terms excused_text ''product'') = [''proven'']"
    by code_simp
  note t = C2_flag [OF h, of "''prohibited_terms''" excused_text "context_exceptions branded_medications"
        get_default_rules "''https://a.com/shop/x''" None "[]"]
  have t2: "text_rule_findings ''prohibited_terms''
        (prohibited_terms\<lparr>context_exceptions := context_exceptions branded_medications\<rparr>)
        excused_text ''product''
      = text_rule_findings ''prohibited_terms'' prohibited_terms excused_text ''product''"
    by (rule conjunct1 [OF conjunct2 [OF t]])
  have t3: "set (text_rule_findings ''prohibited_terms'' prohibited_terms excused_text ''product'')
     \<subseteq> set (findings_at (analyze_text_content get_default_rules ''https://a.com/shop/x''
                   excused_text None ''product'' []) ''https://a.com/shop/x'')"
    by (rule mp [OF conjunct2 [OF conjunct2 [OF t]] m])
  show ?thesis
  proof (intro conjI)
    show "rule_action prohibited_terms ''product'' = Some ''flag''" by (rule h)
    show "(''prohibited_terms'', prohibited_terms) \<in> set get_default_rules" by (rule m)
    show "re_search (re_ast (hd (the (context_exceptions branded_medications)))) excused_text"
      by (rule x)
    show "map matched_text
       (text_rule_findings ''prohibited_terms''
          (prohibited_terms\<lparr>context_exceptions := context_exceptions branded_medications\<rparr>)
          excused_text ''product'') = [''proven'']"
      unfolding t2 by (rule ev)
    show "set (text_rule_findings ''prohibited_terms'' prohibited_terms excused_text ''product'')
       \<subseteq> set (findings_at (analyze_text_content get_default_rules ''https://a.com/shop/x''
                     excused_text None ''product'' []) ''https://a.com/shop/x'')"
      by (rule t3)
  qed
qed

text \<open>
  The claim as stated fails on the snippet: the match of \<^verbatim>\<open>\bproven\b\<close> at 0..6 has a
  window that ends in a blank, and the finding reported for it holds the window without
  that blank.
\<close>

theorem C2_flag_counterexample:
  "rule_action prohibited_terms ''product'' = Some ''flag'' \<and>
   text_rule_findings ''prohibited_terms'' prohibited_terms flagged_text ''product'' = [flagged_finding] \<and>
   flagged_finding \<in> set (findings_at (analyze_text_content get_default_rules ''https://a.com/shop/x''
                              flagged_text None ''product'' []) ''https://a.com/shop/x'') \<and>
   re_finditer (re_ast (hd (patterns prohibited_terms))) flagged_text = [(0, 6)] \<and>
   tight_window flagged_text (0, 6) = ''Proven to help our members reach their goals week after '' \<and>
   f_context flagged_finding \<noteq> tight_window flagged_text (0, 6)"
proof -
  have h: "rule_action prohibited_terms ''product'' = Some ''flag''"
    by code_simp
  have ev: "text_rule_findings ''prohibited_terms'' prohibited_terms flagged_text ''product'' = [flagged_finding]"
    by code_simp
  have m: "(''prohibited_terms'', prohibited_terms) \<in> set get_default_rules"
    by (simp add: get_default_rules_def)
  have inp: "flagged_finding \<in> set (findings_at (analyze_text_content get_default_rules ''https://a.com/shop/x''
                              flagged_text None ''product'' []) ''https://a.com/shop/x'')"
    using text_findings_in_page [OF m, of flagged_text "''product''" "''https://a.com/shop/x''" None "[]"] ev
    by simp
  have fi: "re_finditer (re_ast (hd (patterns prohibited_terms))) flagged_text = [(0, 6)]"
    by code_simp
  have w: "tight_window flagged_text (0, 6) = ''Proven to help our members reach their goals week after ''"
    by code_simp
  have ne: "f_context flagged_finding \<noteq> tight_window flagged_text (0, 6)"
    unfolding w by (simp add: flagged_finding_def)
  show ?thesis using h ev inp fi w ne by simp
qed

text \<open>
  Claim C3, as amended. Under \<^verbatim>\<open>check_context\<close>, or when the rule has no policy for the
  page's type, the body-text scan tests every match against the window of 100 characters
  before and after it: the match is suppressed if and only if some context exception of
  the rule matches inside that window. Every other match is reported once, with the
  window of 50 characters before and after the match, stripped of leading and trailing
  whitespace, as its context snippet.
\<close>

theorem C3_check_context:
  assumes "rule_action r pt = None \<or> rule_action r pt = Some ''check_context''"
  shows "text_rule_findings rn r txt pt =
           concat (map (\<lambda>p.
             map (\<lambda>m. \<lparr>f_type = rn, category = rule_category r, severity = rule_severity r,
                       pattern = re_source p, matched_text = group0 txt m,
                       f_context = py_strip (tight_window txt m),
                       location = ''page_content'', page_type = Some pt\<rparr>)
                 (filter (\<lambda>m. \<not> suppressed r txt m) (re_finditer (re_ast p) txt)))
             (patterns r)) \<and>
         ((rn, r) \<in> set rules \<longrightarrow>
            set (text_rule_findings rn r txt pt)
              \<subseteq> set (findings_at (analyze_text_content rules url txt ttl pt fnd) url))"
proof -
  have a1: "text_rule_findings rn r txt pt = standard_findings rn r txt pt"
    using assms by (auto simp: text_rule_findings_def)
  have a3: "(rn, r) \<in> set rules \<longrightarrow>
            set (text_rule_findings rn r txt pt)
              \<subseteq> set (findings_at (analyze_text_content rules url txt ttl pt fnd) url)"
    using text_findings_in_page by blast
  show ?thesis using a1 a3 standard_findings_eq by simp
qed

text \<open>
  The rule \<^verbatim>\<open>branded_medications\<close> on a page of type \<^verbatim>\<open>other\<close>: the match of
  \<^verbatim>\<open>\bOzempic\b\<close> at 28..35 lies in a window that the first exception matches, and
  nothing is reported.
\<close>

theorem C3_check_context_witness:
  "rule_action branded_medications ''other'' = Some ''check_context'' \<and>
   (''branded_medications'', branded_medications) \<in> set get_default_rules \<and>
   re_finditer (re_ast (hd (patterns branded_medications))) compared_text = [(28, 35)] \<and>
   suppressed branded_medications compared_text (28, 35) \<and>
   text_rule_findings ''branded_medications'' branded_medications compared_text ''other'' = [] \<and>
   set (text_rule_findings ''branded_medications'' branded_medications compared_text ''other'')
     \<subseteq> set (findings_at (analyze_text_content get_default_rules ''https://a.com/''
                   compared_text None ''other'' []) ''https://a.com/'')"
proof -
  have h: "rule_action branded_medications ''other'' = Some ''check_context''"
    by code_simp
  then have h': "rule_action branded_medications ''other'' = None
      \<or> rule_action branded_medications ''other'' = Some ''check_context''" by simp
  have m: "(''branded_medications'', branded_medications) \<in> set get_default_rules"
    by (simp add: get_default_rules_def)
  have fi: "re_finditer (re_ast (hd (patterns branded_medications))) compared_text = [(28, 35)]"
    by code_simp
  have su: "suppressed branded_medications compared_text (28, 35)"
    by code_simp
  have ev: "text_rule_findings ''branded_medications'' branded_medications compared_text ''other'' = []"
    by code_simp
  note t = C3_check_context [OF h', of "''branded_medications''" compared_text get_default_rules
        "''https://a.com/''" None "[]"]
  have t3: "set (text_rule_findings ''branded_medications'' branded_medications compared_text ''other'')
     \<subseteq> set (findings_at (analyze_text_content get_default_rules ''https://a.com/''
                   compared_text None ''other'' []) ''https://a.com/'')"
    by (rule mp [OF conjunct2 [OF t] m])
  show ?thesis using h m fi su ev t3 by blast
qed

text \<open>
  The claim as stated fails on the snippet: the match of \<^verbatim>\<open>\bOzempic\b\<close> at 0..7 has a
  window that ends in a blank, and the finding reported for it holds the window without
  that blank.
\<close>

theorem C3_check_context_counterexample:
  "rule_action branded_medications ''other'' = Some ''check_context'' \<and>
   text_rule_findings ''branded_medications'' branded_medications branded_text ''other'' = [branded_finding] \<and>
   branded_finding \<in> set (findings_at (analyze_text_content get_default_rules ''https://a.com/''
                              branded_text None ''other'' []) ''https://a.com/'') \<and>
   re_finditer (re_ast (hd (patterns branded_medications))) branded_text = [(0, 7)] \<and>
   tight_window branded_text (0, 7) = ''Ozempic is a medicine many of our members ask about this '' \<and>
   f_context branded_finding \<noteq> tight_window branded_text (0, 7)"
proof -
  have h: "rule_action branded_medications ''other'' = Some ''check_context''"
    by code_simp
  have ev: "text_rule_findings ''branded_medications'' branded_medications branded_text ''other'' = [branded_finding]"
    by code_simp
  have m: "(''branded_medications'', branded_medications) \<in> set get_default_rules"
    by (simp add: get_default_rules_def)
  have inp: "branded_finding \<in> set (findings_at (analyze_text_content get_default_rules ''https://a.com/''
                              branded_text None ''other'' []) ''https://a.com/'')"
    using text_findings_in_page [OF m, of branded_text "''other''" "''https://a.com/''" None "[]"] ev
    by simp
  have fi: "re_finditer (re_ast (hd (patterns branded_medications))) branded_text = [(0, 7)]"
    by code_simp
  have w: "tight_window branded_text (0, 7) = ''Ozempic is a medicine many of our members ask about this ''"
    by code_simp
  have ne: "f_context branded_finding \<noteq> tight_window branded_text (0, 7)"
    unfolding w by (simp add: branded_finding_def)
  show ?thesis using h ev inp fi w ne by simp
qed

end
